theory Spec2Isabelle
  imports Main "HOL-Library.Log_Nat"
begin

section \<open>Python numbers\<close>

text \<open>
  The program (\<^verbatim>\<open>src/evaluate.py\<close>) computes sizes and file-name suffixes with Python
  floats: \<^verbatim>\<open>2/3\<close>, \<^verbatim>\<open>896 * scale_factor\<close>, \<^verbatim>\<open>height * (bound / width)\<close>,
  \<^verbatim>\<open>scale_factor*100\<close>, \<^verbatim>\<open>len(line) * (font_size * 0.6)\<close>. A Python float is an IEEE-754
  binary64 number, and every operation returns the exact result rounded to the nearest
  representable number, ties to the even significand. The model keeps numbers as exact
  rationals and applies that rounding, \<open>fl\<close>, after every float operation. Overflow and
  subnormal numbers are not modelled: all magnitudes the program computes from image
  sizes, string lengths and the fixed scale list lie far inside the normal range.
\<close>

definition pow2 :: "int \<Rightarrow> rat" where
  "pow2 k = 2 powi k"

definition round_half_even :: "rat \<Rightarrow> int" where
  "round_half_even x =
     (let f = \<lfloor>x\<rfloor>; d = x - of_int f
      in if d < 1 / 2 then f
         else if 1 / 2 < d then f + 1
         else if even f then f else f + 1)"

text \<open>The binary exponent \<open>e\<close> of a positive rational: \<open>2\<^sup>e \<le> x < 2\<^sup>e\<^sup>+\<^sup>1\<close>.\<close>

definition float_exponent :: "rat \<Rightarrow> int" where
  "float_exponent x =
     (let (p, q) = quotient_of x; e0 = bitlen p - bitlen q
      in if x < pow2 e0 then e0 - 1 else e0)"

text \<open>Rounding to the nearest binary64 number: 53 significant bits.\<close>

definition fl :: "rat \<Rightarrow> rat" where
  "fl x =
     (if x = 0 then 0
      else let a = \<bar>x\<bar>; e = float_exponent a;
               m = round_half_even (a * pow2 (52 - e))
           in sgn x * of_int m * pow2 (e - 52))"

text \<open>\<^verbatim>\<open>a / b\<close> on two ints (true division, correctly rounded in CPython); the source only
  divides by a non-zero width or height, see \<open>constrain_dimensions\<close>.\<close>

definition py_truediv :: "int \<Rightarrow> int \<Rightarrow> rat" where
  "py_truediv a b = fl (of_int a / of_int b)"

text \<open>\<^verbatim>\<open>n * x\<close> and \<^verbatim>\<open>x * n\<close> for an int \<open>n\<close> and a float \<open>x\<close>.\<close>

definition py_mul :: "int \<Rightarrow> rat \<Rightarrow> rat" where
  "py_mul n x = fl (of_int n * x)"

text \<open>\<^verbatim>\<open>int(x)\<close> on a float truncates toward zero.\<close>

definition py_int :: "rat \<Rightarrow> int" where
  "py_int x = (if 0 \<le> x then \<lfloor>x\<rfloor> else \<lceil>x\<rceil>)"

section \<open>Python strings and POSIX paths\<close>

text \<open>\<^verbatim>\<open>str(n)\<close> of an int, as an f-string field \<^verbatim>\<open>{n}\<close> prints it.\<close>

fun str_nat :: "nat \<Rightarrow> string" where
  "str_nat n =
     (if n < 10 then [''0123456789'' ! n]
      else str_nat (n div 10) @ [''0123456789'' ! (n mod 10)])"

declare str_nat.simps [simp del]

definition str_int :: "int \<Rightarrow> string" where
  "str_int i = (if i < 0 then CHR ''-'' # str_nat (nat (- i)) else str_nat (nat i))"

text \<open>\<^verbatim>\<open>os.path.basename\<close>: what follows the last slash.\<close>

definition path_basename :: "string \<Rightarrow> string" where
  "path_basename p = rev (takeWhile (\<lambda>c. c \<noteq> CHR ''/'') (rev p))"

text \<open>\<^verbatim>\<open>os.path.dirname\<close>: what precedes the last slash, without trailing slashes unless
  it consists of slashes only.\<close>

definition path_dirname :: "string \<Rightarrow> string" where
  "path_dirname p =
     (let head = rev (dropWhile (\<lambda>c. c \<noteq> CHR ''/'') (rev p))
      in if head \<noteq> [] \<and> \<not> list_all (\<lambda>c. c = CHR ''/'') head
         then rev (dropWhile (\<lambda>c. c = CHR ''/'') (rev head))
         else head)"

text \<open>\<^verbatim>\<open>os.path.splitext\<close> on a file name without slashes: split before the last dot,
  unless only dots precede it.\<close>

definition path_splitext :: "string \<Rightarrow> string \<times> string" where
  "path_splitext p =
     (let ext = rev (takeWhile (\<lambda>c. c \<noteq> CHR ''.'') (rev p));
          root_dot = rev (dropWhile (\<lambda>c. c \<noteq> CHR ''.'') (rev p))
      in if root_dot = [] then (p, [])
         else let root = butlast root_dot
              in if list_all (\<lambda>c. c = CHR ''.'') root then (p, [])
                 else (root, CHR ''.'' # ext))"

text \<open>\<^verbatim>\<open>os.path.join(a, b)\<close>.\<close>

definition path_join :: "string \<Rightarrow> string \<Rightarrow> string" where
  "path_join a b =
     (if b \<noteq> [] \<and> hd b = CHR ''/'' then b
      else if a = [] \<or> last a = CHR ''/'' then a @ b
      else a @ ''/'' @ b)"

section \<open>The transformation matrix\<close>

text \<open>\<^verbatim>\<open>scales = [1.0, 2/3, 1/3]\<close> (\<^verbatim>\<open>main\<close>) and the quality levels of
  \<^verbatim>\<open>run_full_quality_cycle\<close>.\<close>

definition scales :: "rat list" where
  "scales = [1, py_truediv 2 3, py_truediv 1 3]"

definition qualities :: "int list" where
  "qualities = [100, 90, 70, 50, 30, 10]"

text \<open>\<^verbatim>\<open>effective_max_dimension = int(self.max_dimension * scale_factor)\<close>.\<close>

definition effective_max_dimension :: "int \<Rightarrow> rat \<Rightarrow> int" where
  "effective_max_dimension max_dimension scale_factor = py_int (py_mul max_dimension scale_factor)"

text \<open>\<^verbatim>\<open>int(scale_factor*100)\<close>, the percentage used in file names and on the panel.\<close>

definition scale_percent :: "rat \<Rightarrow> int" where
  "scale_percent scale_factor = py_int (py_mul 100 scale_factor)"

section \<open>ImageProcessor\<close>

text \<open>
  Lines 31 to 38 of \<^verbatim>\<open>process_image\<close>: the new size of an image of size
  \<open>(width, height)\<close> under the bound \<open>effective_max_dimension\<close>. \<open>None\<close> stands for the
  \<^verbatim>\<open>ZeroDivisionError\<close> of a division by a zero side.
\<close>

definition constrain_dimensions :: "int \<Rightarrow> int \<Rightarrow> int \<Rightarrow> (int \<times> int) option" where
  "constrain_dimensions width height emd =
     (if width > emd \<or> height > emd then
        if width > height then
          (if width = 0 then None
           else Some (emd, py_int (py_mul height (py_truediv emd width))))
        else
          (if height = 0 then None
           else Some (py_int (py_mul width (py_truediv emd height)), emd))
      else Some (width, height))"

text \<open>The output path of lines 56 to 58.\<close>

definition variant_output_path :: "string \<Rightarrow> int \<Rightarrow> rat \<Rightarrow> string" where
  "variant_output_path file_path quality scale_factor =
     (let output_dir = path_dirname file_path;
          filename = path_basename file_path;
          name = fst (path_splitext filename)
      in path_join output_dir
           (name @ ''_q'' @ str_int quality @ ''_s'' @ str_int (scale_percent scale_factor)
              @ ''.jpg''))"

text \<open>
  Python values as the program stores them in its result records and reads them from the
  API reply: \<^verbatim>\<open>None\<close>, booleans, ints, floats, strings, lists and dicts. A dict is an
  association list in insertion order with distinct keys.
\<close>

datatype json =
    JNull
  | JBool bool
  | JInt int
  | JFloat rat
  | JStr string
  | JArr "json list"
  | JObj "(string \<times> json) list"

type_synonym dict = "(string \<times> json) list"

datatype py_exception =
    TypeError
  | KeyError
  | IndexError
  | AttributeError
  | RequestError string

text \<open>
  What the program reads from outside.
  \<^item> \<open>image_size\<close> is \<^verbatim>\<open>Image.open(path).size\<close>; \<open>None\<close> is any exception it raises.
  \<^item> \<open>jpeg_base64 path size quality\<close> is the base64 text of the JPEG that resizing to
    \<open>size\<close>, flattening transparency and saving at \<open>quality\<close> produce; \<open>None\<close> is any
    exception raised on the way.
  \<^item> \<open>resize_ok path size\<close> tells whether Pillow resizes the image to \<open>size\<close> for display.
  \<^item> \<open>http_post endpoint headers payload\<close> is the parsed JSON body of the reply, or the
    exception of \<^verbatim>\<open>requests.post\<close>, \<^verbatim>\<open>raise_for_status\<close> or \<^verbatim>\<open>response.json\<close>.
  \<^item> \<open>exception_text\<close> is \<^verbatim>\<open>str(e)\<close>.
  \<^item> \<open>timestamp\<close> and \<open>elapsed\<close> are the clock readings of the call for one file,
    quality and scale: \<^verbatim>\<open>datetime.now().isoformat()\<close> and \<^verbatim>\<open>end_time - start_time\<close>.
  \<^item> \<open>repr_float\<close> and \<open>format_2f\<close> print a float as \<^verbatim>\<open>{x}\<close> and \<^verbatim>\<open>{x:.2f}\<close> do.
  Writing a file is taken to succeed.
\<close>

record world =
  image_size :: "string \<Rightarrow> (int \<times> int) option"
  jpeg_base64 :: "string \<Rightarrow> int \<times> int \<Rightarrow> int \<Rightarrow> string option"
  resize_ok :: "string \<Rightarrow> int \<times> int \<Rightarrow> bool"
  http_post :: "string \<Rightarrow> (string \<times> string) list \<Rightarrow> json \<Rightarrow> py_exception + json"
  exception_text :: "py_exception \<Rightarrow> string"
  timestamp :: "string \<Rightarrow> int \<Rightarrow> rat \<Rightarrow> string"
  elapsed :: "string \<Rightarrow> int \<Rightarrow> rat \<Rightarrow> rat"
  repr_float :: "rat \<Rightarrow> string"
  format_2f :: "rat \<Rightarrow> string"

text \<open>\<^verbatim>\<open>ImageProcessor.process_image\<close>; \<open>None\<close> is the \<^verbatim>\<open>(None, None)\<close> of the
  \<^verbatim>\<open>except\<close> branch. \<^verbatim>\<open>os.makedirs\<close> raises on the empty directory name.\<close>

definition process_image ::
  "world \<Rightarrow> int \<Rightarrow> string \<Rightarrow> int \<Rightarrow> rat \<Rightarrow> (string \<times> string) option" where
  "process_image w max_dimension file_path quality scale_factor =
     (if path_dirname file_path = [] then None
      else case image_size w file_path of
        None \<Rightarrow> None
      | Some (width, height) \<Rightarrow>
         (case constrain_dimensions width height
                 (effective_max_dimension max_dimension scale_factor) of
            None \<Rightarrow> None
          | Some new_size \<Rightarrow>
             (case jpeg_base64 w file_path new_size quality of
                None \<Rightarrow> None
              | Some img_base64 \<Rightarrow>
                  Some (img_base64, variant_output_path file_path quality scale_factor))))"

section \<open>LLMProcessor\<close>

text \<open>Dict operations: \<^verbatim>\<open>d.get(k)\<close> is \<open>map_of d k\<close>; \<^verbatim>\<open>d[k] = v\<close> keeps the place of an
  existing key.\<close>

definition dict_set :: "dict \<Rightarrow> string \<Rightarrow> json \<Rightarrow> dict" where
  "dict_set d k v =
     (if k \<in> fst ` set d then map (\<lambda>(k', v'). if k' = k then (k', v) else (k', v')) d
      else d @ [(k, v)])"

fun is_substring :: "string \<Rightarrow> string \<Rightarrow> bool" where
  "is_substring k [] = (k = [])"
| "is_substring k (c # s) = (take (length k) (c # s) = k \<or> is_substring k s)"

text \<open>\<^verbatim>\<open>k in x\<close> for a string \<open>k\<close>: a key of a dict, an element of a list, a substring of
  a string, and a \<^verbatim>\<open>TypeError\<close> on anything else.\<close>

definition py_in :: "string \<Rightarrow> json \<Rightarrow> py_exception + bool" where
  "py_in k x =
     (case x of
        JObj kvs \<Rightarrow> Inr (k \<in> fst ` set kvs)
      | JArr xs \<Rightarrow> Inr (JStr k \<in> set xs)
      | JStr s \<Rightarrow> Inr (is_substring k s)
      | _ \<Rightarrow> Inl TypeError)"

text \<open>\<^verbatim>\<open>x[k]\<close> for a string \<open>k\<close>.\<close>

definition py_getitem :: "json \<Rightarrow> string \<Rightarrow> py_exception + json" where
  "py_getitem x k =
     (case x of
        JObj kvs \<Rightarrow> (case map_of kvs k of None \<Rightarrow> Inl KeyError | Some v \<Rightarrow> Inr v)
      | _ \<Rightarrow> Inl TypeError)"

text \<open>\<^verbatim>\<open>len(x)\<close>.\<close>

definition py_len :: "json \<Rightarrow> py_exception + nat" where
  "py_len x =
     (case x of
        JObj kvs \<Rightarrow> Inr (length kvs)
      | JArr xs \<Rightarrow> Inr (length xs)
      | JStr s \<Rightarrow> Inr (length s)
      | _ \<Rightarrow> Inl TypeError)"

text \<open>\<^verbatim>\<open>x[0]\<close>; a dict parsed from JSON has string keys only.\<close>

definition py_index0 :: "json \<Rightarrow> py_exception + json" where
  "py_index0 x =
     (case x of
        JArr xs \<Rightarrow> (case xs of [] \<Rightarrow> Inl IndexError | y # _ \<Rightarrow> Inr y)
      | JStr s \<Rightarrow> (case s of [] \<Rightarrow> Inl IndexError | c # _ \<Rightarrow> Inr (JStr [c]))
      | JObj kvs \<Rightarrow> Inl KeyError
      | _ \<Rightarrow> Inl TypeError)"

text \<open>\<^verbatim>\<open>x.get(k, default)\<close>, a method of dicts only.\<close>

definition py_get :: "json \<Rightarrow> string \<Rightarrow> json \<Rightarrow> py_exception + json" where
  "py_get x k dflt =
     (case x of
        JObj kvs \<Rightarrow> Inr (case map_of kvs k of None \<Rightarrow> dflt | Some v \<Rightarrow> v)
      | _ \<Rightarrow> Inl AttributeError)"

text \<open>
  Lines 160 to 164 of \<^verbatim>\<open>process_file\<close>: the value assigned to \<^verbatim>\<open>result["response"]\<close>,
  \<open>None\<close> when nothing is assigned, or the exception raised.
\<close>

definition extract_response :: "json \<Rightarrow> py_exception + json option" where
  "extract_response response_json =
     (case py_in ''choices'' response_json of
        Inl e \<Rightarrow> Inl e
      | Inr False \<Rightarrow> Inr None
      | Inr True \<Rightarrow>
         (case py_getitem response_json ''choices'' of
            Inl e \<Rightarrow> Inl e
          | Inr choices \<Rightarrow>
             (case py_len choices of
                Inl e \<Rightarrow> Inl e
              | Inr n \<Rightarrow>
                 if n > 0 then
                   (case py_index0 choices of
                      Inl e \<Rightarrow> Inl e
                    | Inr choice \<Rightarrow>
                       (case py_in ''message'' choice of
                          Inl e \<Rightarrow> Inl e
                        | Inr True \<Rightarrow>
                           (case py_getitem choice ''message'' of
                              Inl e \<Rightarrow> Inl e
                            | Inr message \<Rightarrow> map_sum id Some (py_getitem message ''content''))
                        | Inr False \<Rightarrow> map_sum id Some (py_get choice ''text'' (JStr []))))
                 else Inr None)))"

definition system_instruction :: string where
  "system_instruction = ''You are a helpful image capable model''"

definition instruction :: string where
  "instruction = ''Describe the image. Make sure to list every object that can be recognized and the location of that object. If there is any writing, transcribe it separately.''"

text \<open>The request body of lines 98 to 125; the literal \<^verbatim>\<open>0.1\<close> is the float nearest to 1/10.\<close>

definition build_payload :: "string \<Rightarrow> json" where
  "build_payload image_base64 =
     JObj [
       (''messages'', JArr [
          JObj [(''role'', JStr ''system''), (''content'', JStr system_instruction)],
          JObj [(''role'', JStr ''user''),
                (''content'', JArr [
                   JObj [(''type'', JStr ''text''), (''text'', JStr instruction)],
                   JObj [(''type'', JStr ''image_url''),
                         (''image_url'',
                          JObj [(''url'', JStr (''data:image/jpeg;base64,'' @ image_base64))])]])]]),
       (''max_tokens'', JInt 1024),
       (''temperature'', JFloat (fl (1 / 10))),
       (''top_p'', JInt 1),
       (''top_k'', JInt 0),
       (''rep_pen'', JInt 1),
       (''min_p'', JFloat (fl (1 / 10)))]"

definition request_headers :: "string \<Rightarrow> (string \<times> string) list" where
  "request_headers api_password =
     (''Content-Type'', ''application/json'')
     # (if api_password \<noteq> [] then [(''Authorization'', ''Bearer '' @ api_password)] else [])"

text \<open>The two failure records of \<^verbatim>\<open>process_file\<close> (lines 89 to 96 and 169 to 176).\<close>

definition failure_result :: "world \<Rightarrow> string \<Rightarrow> string \<Rightarrow> int \<Rightarrow> rat \<Rightarrow> dict" where
  "failure_result w message file_path quality scale_factor =
     [(''success'', JBool False),
      (''error'', JStr message),
      (''file_path'', JStr file_path),
      (''quality'', JInt quality),
      (''scale_factor'', JFloat scale_factor),
      (''timestamp'', JStr (timestamp w file_path quality scale_factor))]"

text \<open>The record of lines 148 to 158, with \<^verbatim>\<open>"response": None\<close>.\<close>

definition success_result ::
  "world \<Rightarrow> string \<Rightarrow> string \<Rightarrow> int \<Rightarrow> rat \<Rightarrow> json \<Rightarrow> dict" where
  "success_result w file_path output_path quality scale_factor payload =
     [(''success'', JBool True),
      (''file_path'', JStr file_path),
      (''output_path'', JStr output_path),
      (''quality'', JInt quality),
      (''scale_factor'', JFloat scale_factor),
      (''timestamp'', JStr (timestamp w file_path quality scale_factor)),
      (''processing_time'', JFloat (elapsed w file_path quality scale_factor)),
      (''payload'', payload),
      (''response'', JNull)]"

text \<open>\<^verbatim>\<open>LLMProcessor.process_file\<close>. \<^verbatim>\<open>not image_base64\<close> holds for \<^verbatim>\<open>None\<close> and for the
  empty string.\<close>

definition process_file ::
  "world \<Rightarrow> string \<Rightarrow> string \<Rightarrow> string \<Rightarrow> int \<Rightarrow> rat \<Rightarrow> dict" where
  "process_file w api_url api_password file_path quality scale_factor =
     (case process_image w 896 file_path quality scale_factor of
        None \<Rightarrow> failure_result w ''Failed to process image'' file_path quality scale_factor
      | Some (image_base64, output_path) \<Rightarrow>
         if image_base64 = [] then
           failure_result w ''Failed to process image'' file_path quality scale_factor
         else
           let payload = build_payload image_base64;
               endpoint = api_url @ ''/v1/chat/completions''
           in (case http_post w endpoint (request_headers api_password) payload of
                 Inl e \<Rightarrow> failure_result w (exception_text w e) file_path quality scale_factor
               | Inr response_json \<Rightarrow>
                  (let result = success_result w file_path output_path quality scale_factor payload
                   in (case extract_response response_json of
                         Inl e \<Rightarrow>
                           failure_result w (exception_text w e) file_path quality scale_factor
                       | Inr None \<Rightarrow> result
                       | Inr (Some v) \<Rightarrow> dict_set result ''response'' v))))"

section \<open>Comparison artifact\<close>

text \<open>What \<^verbatim>\<open>create_side_by_side_image\<close> draws on the canvas: \<^verbatim>\<open>draw.text((x, y), text)\<close> and
  \<^verbatim>\<open>draw.line([(x1, y1), (x2, y2)])\<close>.\<close>

datatype draw_op =
    DrawText int int string
  | DrawLine int int int int

definition font_size :: int where
  "font_size = 14"

text \<open>\<^verbatim>\<open>int(len(s) * (font_size * 0.6))\<close>, the estimated rendered width of a string.\<close>

definition est_width :: "string \<Rightarrow> int" where
  "est_width s = py_int (py_mul (int (length s)) (py_mul font_size (fl (6 / 10))))"

text \<open>\<^verbatim>\<open>line_height = int(font_size * 1.2)\<close> and the step \<^verbatim>\<open>int(font_size * 1.5)\<close> of the
  settings lines.\<close>

definition line_height :: int where
  "line_height = py_int (py_mul font_size (fl (12 / 10)))"

definition settings_step :: int where
  "settings_step = py_int (py_mul font_size (3 / 2))"

text \<open>\<^verbatim>\<open>s.split(c)\<close> for a one-character separator.\<close>

fun split_on :: "char \<Rightarrow> string \<Rightarrow> string list" where
  "split_on c [] = [[]]"
| "split_on c (x # xs) =
     (if x = c then [] # split_on c xs
      else case split_on c xs of
             [] \<Rightarrow> [[x]]
           | l # ls \<Rightarrow> (x # l) # ls)"

definition newline :: char where
  "newline = CHR 0x0A"

text \<open>\<^verbatim>\<open>s.split()\<close>: the maximal runs of non-whitespace characters. The whitespace
  characters of Python below code point 256 are listed.\<close>

definition is_space :: "char \<Rightarrow> bool" where
  "is_space c =
     (c \<in> set [CHR 0x09, CHR 0x0A, CHR 0x0B, CHR 0x0C, CHR 0x0D, CHR 0x1C, CHR 0x1D,
                CHR 0x1E, CHR 0x1F, CHR 0x20, CHR 0x85, CHR 0xA0])"

fun split_words :: "string \<Rightarrow> string \<Rightarrow> string list" where
  "split_words cur [] = (if cur = [] then [] else [cur])"
| "split_words cur (c # cs) =
     (if is_space c then (if cur = [] then split_words [] cs else cur # split_words [] cs)
      else split_words (cur @ [c]) cs)"

definition py_split :: "string \<Rightarrow> string list" where
  "py_split s = split_words [] s"

text \<open>
  The loop of lines 261 to 268 over the words of one line. The state is the current line,
  \<^verbatim>\<open>y_position\<close> and the drawing operations so far; \<open>img_width\<close> is also the text width.
\<close>

fun wrap_words ::
  "int \<Rightarrow> string list \<Rightarrow> string \<times> int \<times> draw_op list \<Rightarrow> string \<times> int \<times> draw_op list" where
  "wrap_words img_width [] st = st"
| "wrap_words img_width (word # words) (current_line, y_position, ops) =
     (let test_line = (if current_line \<noteq> [] then current_line @ '' '' @ word else word)
      in if est_width test_line < img_width - 20
         then wrap_words img_width words (test_line, y_position, ops)
         else wrap_words img_width words
                (word, y_position + line_height,
                 ops @ [DrawText (img_width + 10) y_position current_line]))"

text \<open>One round of the loop of lines 256 to 274: one line of the response.\<close>

definition draw_response_line ::
  "int \<Rightarrow> int \<times> draw_op list \<Rightarrow> string \<Rightarrow> int \<times> draw_op list" where
  "draw_response_line img_width st line =
     (case st of (y_position, ops) \<Rightarrow>
        if est_width line > img_width - 20 then
          (case wrap_words img_width (py_split line) ([], y_position, ops) of
             (current_line, y', ops') \<Rightarrow>
               if current_line \<noteq> []
               then (y' + line_height, ops' @ [DrawText (img_width + 10) y' current_line])
               else (y', ops'))
        else (y_position + line_height, ops @ [DrawText (img_width + 10) y_position line]))"

definition draw_response :: "int \<Rightarrow> string \<Rightarrow> int \<times> draw_op list \<Rightarrow> int \<times> draw_op list" where
  "draw_response img_width response_text st =
     foldl (draw_response_line img_width) st (split_on newline response_text)"

text \<open>The loop of lines 245 to 247 over the settings lines.\<close>

definition draw_settings :: "int \<Rightarrow> string list \<Rightarrow> int \<times> draw_op list \<Rightarrow> int \<times> draw_op list" where
  "draw_settings img_width settings st =
     foldl (\<lambda>(y_position, ops) line.
              (y_position + settings_step, ops @ [DrawText (img_width + 10) y_position line]))
           st settings"

text \<open>Lines 192 to 204: the size of the displayed image.\<close>

definition display_dimensions :: "int \<Rightarrow> int \<Rightarrow> int \<Rightarrow> (int \<times> int) option" where
  "display_dimensions width height emd =
     (if width > height then
        (if width > emd then
           (if width = 0 then None
            else Some (emd, py_int (py_mul height (py_truediv emd width))))
         else Some (width, height))
      else
        (if height > emd then
           (if height = 0 then None
            else Some (py_int (py_mul width (py_truediv emd height)), emd))
         else Some (width, height)))"

text \<open>Lines 280 to 285: the file name of the artifact.\<close>

definition combined_filename :: "string \<Rightarrow> rat \<Rightarrow> int \<Rightarrow> string" where
  "combined_filename name scale_factor quality =
     (if scale_factor = 1 \<and> quality = 100 then name @ ''_original_combined.jpg''
      else if scale_factor = 1 then name @ ''_q'' @ str_int quality @ ''_combined.jpg''
      else name @ ''_s'' @ str_int (scale_percent scale_factor) @ ''_q'' @ str_int quality
             @ ''_combined.jpg'')"

text \<open>
  Reading a record of \<^verbatim>\<open>process_file\<close>: \<^verbatim>\<open>scale_factor\<close>, \<^verbatim>\<open>processing_time\<close> and the
  temperature are floats and \<^verbatim>\<open>quality\<close> is an int there. The renderer is only called on
  such records; a value of another type is outside the model and reads as \<open>None\<close>.
\<close>

definition read_float :: "dict \<Rightarrow> string \<Rightarrow> rat option" where
  "read_float d k = (case map_of d k of Some (JFloat x) \<Rightarrow> Some x | _ \<Rightarrow> None)"

definition read_int :: "dict \<Rightarrow> string \<Rightarrow> int option" where
  "read_int d k = (case map_of d k of Some (JInt n) \<Rightarrow> Some n | _ \<Rightarrow> None)"

text \<open>Lines 221 to 226; \<open>None\<close> is the \<^verbatim>\<open>KeyError\<close> of a missing \<^verbatim>\<open>payload\<close>,
  \<^verbatim>\<open>temperature\<close> or \<^verbatim>\<open>processing_time\<close>.\<close>

definition settings_text :: "world \<Rightarrow> dict \<Rightarrow> int \<Rightarrow> rat \<Rightarrow> int \<Rightarrow> string option" where
  "settings_text w result quality scale_factor emd =
     (case map_of result ''payload'' of
        Some (JObj payload) \<Rightarrow>
          (case (read_float payload ''temperature'', read_float result ''processing_time'') of
             (Some temperature, Some processing_time) \<Rightarrow>
               Some (''Quality: '' @ str_int quality @ ''%'' @ [newline]
                     @ ''Scale: '' @ str_int (scale_percent scale_factor) @ ''% (''
                     @ str_int emd @ ''px)'' @ [newline]
                     @ ''Temperature: '' @ repr_float w temperature @ [newline]
                     @ ''Time: '' @ format_2f w processing_time @ ''s'')
           | _ \<Rightarrow> None)
      | _ \<Rightarrow> None)"

text \<open>
  \<^verbatim>\<open>create_side_by_side_image\<close>. The result is the path of the saved artifact with the size
  of the canvas and what was drawn on it, or \<open>None\<close>, the value of the \<^verbatim>\<open>except\<close> branch.
  \<^verbatim>\<open>result.get("response", "No response")\<close> is the stored value when the key is present,
  also when that value is \<^verbatim>\<open>None\<close>; only a string has the method \<^verbatim>\<open>split\<close>.
\<close>

definition create_side_by_side_image ::
  "world \<Rightarrow> string \<Rightarrow> dict \<Rightarrow> string \<Rightarrow> (string \<times> (int \<times> int) \<times> draw_op list) option" where
  "create_side_by_side_image w original_path result output_dir =
     (case image_size w original_path of
        None \<Rightarrow> None
      | Some (width, height) \<Rightarrow>
         (case (if map_of result ''scale_factor'' = None then Some 1
                else read_float result ''scale_factor'',
                if map_of result ''quality'' = None then Some 100
                else read_int result ''quality'') of
            (Some scale_factor, Some quality) \<Rightarrow>
              (let emd = effective_max_dimension 896 scale_factor
               in (case display_dimensions width height emd of
                     None \<Rightarrow> None
                   | Some (img_width, img_height) \<Rightarrow>
                      if \<not> resize_ok w original_path (img_width, img_height) then None
                      else
                        (case settings_text w result quality scale_factor emd of
                           None \<Rightarrow> None
                         | Some settings \<Rightarrow>
                            (case (case map_of result ''response'' of
                                     None \<Rightarrow> Some (JStr ''No response'')
                                   | Some v \<Rightarrow> Some v) of
                               Some (JStr response_text) \<Rightarrow>
                                 (let text_height =
                                        max (py_int (fl (py_mul
                                               (int (length (split_on newline response_text))
                                                  * font_size) (3 / 2) + 200)))
                                            img_height;
                                      combined_width = img_width + img_width;
                                      combined_height = max img_height text_height;
                                      st1 = draw_settings img_width (split_on newline settings)
                                              (10, []);
                                      y1 = fst st1 + 10;
                                      st2 = (y1 + 10,
                                             snd st1 @ [DrawLine (img_width + 10) y1
                                                          (combined_width - 10) y1]);
                                      st3 = draw_response img_width response_text st2;
                                      name = fst (path_splitext (path_basename original_path))
                                  in Some (path_join output_dir
                                             (combined_filename name scale_factor quality),
                                           (combined_width, combined_height), snd st3))
                             | _ \<Rightarrow> None))))
          | _ \<Rightarrow> None))"

section \<open>The sweep\<close>

text \<open>Lines 321 to 326: the file name of the JSON document.\<close>

definition json_filename :: "string \<Rightarrow> rat \<Rightarrow> int \<Rightarrow> string" where
  "json_filename name scale_factor quality =
     (if scale_factor = 1 \<and> quality = 100 then name @ ''_original.json''
      else if scale_factor = 1 then name @ ''_q'' @ str_int quality @ ''.json''
      else name @ ''_s'' @ str_int (scale_percent scale_factor) @ ''_q'' @ str_int quality
             @ ''.json'')"

text \<open>
  What one round of the loop of \<^verbatim>\<open>run_full_quality_cycle\<close> does for a pair: the result
  record of \<^verbatim>\<open>process_file\<close>, the JSON document written (path and content) if any, and
  the artifact rendered if any.
\<close>

record pair_outcome =
  scale_of :: rat
  quality_of :: int
  result_of :: dict
  json_file :: "(string \<times> dict) option"
  side_by_side :: "(string \<times> (int \<times> int) \<times> draw_op list) option"

text \<open>\<^verbatim>\<open>if result["success"]\<close>.\<close>

definition is_success :: "dict \<Rightarrow> bool" where
  "is_success result = (map_of result ''success'' = Some (JBool True))"

definition run_pair ::
  "world \<Rightarrow> string \<Rightarrow> string \<Rightarrow> string \<Rightarrow> string \<Rightarrow> rat \<Rightarrow> int \<Rightarrow> pair_outcome" where
  "run_pair w file_path api_url api_password output_dir scale_factor quality =
     (let result = process_file w api_url api_password file_path quality scale_factor
      in if is_success result then
           (let name = fst (path_splitext (path_basename file_path));
                json_path = path_join output_dir (json_filename name scale_factor quality);
                result_for_json = filter (\<lambda>(k, v). k \<noteq> ''image_base64'') result
            in \<lparr>scale_of = scale_factor, quality_of = quality, result_of = result,
                json_file = Some (json_path, result_for_json),
                side_by_side = create_side_by_side_image w file_path result output_dir\<rparr>)
         else \<lparr>scale_of = scale_factor, quality_of = quality, result_of = result,
               json_file = None, side_by_side = None\<rparr>)"

text \<open>\<^verbatim>\<open>run_full_quality_cycle\<close>: the loop over the quality levels, for one scale.\<close>

definition run_full_quality_cycle ::
  "world \<Rightarrow> string \<Rightarrow> string \<Rightarrow> string \<Rightarrow> string \<Rightarrow> rat \<Rightarrow> pair_outcome list" where
  "run_full_quality_cycle w file_path api_url api_password output_dir scale_factor =
     map (run_pair w file_path api_url api_password output_dir scale_factor) qualities"

text \<open>The body of the image loop of \<^verbatim>\<open>main\<close> (lines 383 to 387): the loop over the
  scales, for one image.\<close>

definition sweep_image ::
  "world \<Rightarrow> string \<Rightarrow> string \<Rightarrow> string \<Rightarrow> string \<Rightarrow> pair_outcome list" where
  "sweep_image w file_path api_url api_password output_dir =
     concat (map (run_full_quality_cycle w file_path api_url api_password output_dir) scales)"

text \<open>The image loop of \<^verbatim>\<open>main\<close> (line 378).\<close>

definition main_loop ::
  "world \<Rightarrow> string list \<Rightarrow> string \<Rightarrow> string \<Rightarrow> string \<Rightarrow> pair_outcome list list" where
  "main_loop w image_files api_url api_password output_dir =
     map (\<lambda>file_path. sweep_image w file_path api_url api_password output_dir) image_files"

section \<open>Example worlds\<close>

text \<open>
  Three outside worlds for the concrete runs below. In all of them every image is
  1920 by 1080 and encodes to the same base64 text. In \<open>world_no_choices\<close> the API
  replies with the empty JSON object, in \<open>world_ok\<close> with one choice whose message is
  \<^verbatim>\<open>a cat\<close>, and in \<open>world_unreadable\<close> no image can be opened.
\<close>

definition world_no_choices :: world where
  "world_no_choices =
     \<lparr>image_size = (\<lambda>_. Some (1920, 1080)),
      jpeg_base64 = (\<lambda>_ _ _. Some ''QUJD''),
      resize_ok = (\<lambda>_ _. True),
      http_post = (\<lambda>_ _ _. Inr (JObj [])),
      exception_text = (\<lambda>_. ''error''),
      timestamp = (\<lambda>_ _ _. ''2025-01-01T00:00:00''),
      elapsed = (\<lambda>_ _ _. 1),
      repr_float = (\<lambda>_. ''0.1''),
      format_2f = (\<lambda>_. ''1.00'')\<rparr>"

definition world_unreadable :: world where
  "world_unreadable = world_no_choices\<lparr>image_size := (\<lambda>_. None)\<rparr>"

definition world_ok :: world where
  "world_ok =
     world_no_choices\<lparr>http_post :=
       (\<lambda>_ _ _. Inr (JObj [(''choices'',
                  JArr [JObj [(''message'', JObj [(''content'', JStr ''a cat'')])]])]))\<rparr>"

section \<open>Evaluation of the float model\<close>

lemma scale_two_thirds: "py_truediv 2 3 = 6004799503160661 / 9007199254740992"
  by code_simp

lemma scale_one_third: "py_truediv 1 3 = 6004799503160661 / 18014398509481984"
  by code_simp

lemma percent_values:
  "scale_percent 1 = 100"
  "scale_percent (py_truediv 2 3) = 66"
  "scale_percent (py_truediv 1 3) = 33"
  by code_simp+

lemma str_values:
  "str_int 100 = ''100''" "str_int 90 = ''90''" "str_int 70 = ''70''" "str_int 50 = ''50''"
  "str_int 30 = ''30''" "str_int 10 = ''10''" "str_int 66 = ''66''" "str_int 33 = ''33''"
  by code_simp+

lemma scales_not_one: "py_truediv 2 3 \<noteq> 1" "py_truediv 1 3 \<noteq> 1"
  by (simp_all add: scale_two_thirds scale_one_third)



section \<open>Properties of the rounding\<close>

text \<open>
  The facts about \<open>fl\<close> that the claims on sizes and on text widths rest on: a positive
  number lies in the binade of its exponent, rounding stays in the closed binade, is
  monotone on the non-negative numbers, and its relative error is at most \<open>2\<^sup>-\<^sup>5\<^sup>3\<close>.
\<close>

lemma pow2_pos: "0 < pow2 k"
  by (simp add: pow2_def)

lemma pow2_zero: "pow2 0 = 1"
  by (simp add: pow2_def)

lemma pow2_add: "pow2 (a + b) = pow2 a * pow2 b"
  by (simp add: pow2_def power_int_add)

lemma pow2_diff: "pow2 (a - b) = pow2 a / pow2 b"
  by (simp add: pow2_def power_int_diff)

lemma pow2_mono: "a \<le> b \<Longrightarrow> pow2 a \<le> pow2 b"
  by (simp add: pow2_def power_int_increasing)

lemma pow2_strict_mono: "a < b \<Longrightarrow> pow2 a < pow2 b"
  by (simp add: pow2_def power_int_strict_increasing)

lemma pow2_nat: "0 \<le> k \<Longrightarrow> pow2 k = 2 ^ nat k"
  by (simp add: pow2_def power_int_nonneg_exp)

lemma pow2_succ: "pow2 (k + 1) = 2 * pow2 k"
  by (simp add: pow2_def power_int_add_1)

lemma bitlen_rat_bounds:
  assumes "0 < p"
  shows "pow2 (bitlen p - 1) \<le> of_int p" and "of_int p < pow2 (bitlen p)"
proof -
  from assms have one: "1 \<le> bitlen p"
    using bitlen_eq_zero_iff [of p] bitlen_nonneg [of p] by linarith
  from bitlen_bounds [OF assms]
  have lo: "2 ^ nat (bitlen p - 1) \<le> p" and hi: "p < 2 ^ nat (bitlen p)"
    by simp_all
  from lo have "(of_int (2 ^ nat (bitlen p - 1)) :: rat) \<le> of_int p"
    by (simp only: of_int_le_iff)
  with one show "pow2 (bitlen p - 1) \<le> of_int p"
    by (simp add: pow2_nat)
  from hi have "(of_int p :: rat) < of_int (2 ^ nat (bitlen p))"
    by (simp only: of_int_less_iff)
  with one show "of_int p < pow2 (bitlen p)"
    by (simp add: pow2_nat)
qed

lemma float_exponent_bounds:
  assumes "0 < x"
  shows "pow2 (float_exponent x) \<le> x" and "x < pow2 (float_exponent x + 1)"
proof -
  obtain p q where pq: "quotient_of x = (p, q)"
    by (cases "quotient_of x")
  have q: "0 < q"
    using quotient_of_denom_pos [OF pq] .
  have x: "x = of_int p / of_int q"
    using quotient_of_div [OF pq] .
  have p: "0 < p"
    using assms q x by (simp add: zero_less_divide_iff)
  define e0 where "e0 = bitlen p - bitlen q"
  have qpos: "(0::rat) < of_int q"
    using q by simp
  have ppos: "(0::rat) \<le> of_int p"
    using p by simp
  have "x < pow2 (bitlen p) / pow2 (bitlen q - 1)"
    unfolding x
    using frac_less [of "of_int p" "pow2 (bitlen p)" "pow2 (bitlen q - 1)" "of_int q"]
      bitlen_rat_bounds [OF p] bitlen_rat_bounds [OF q] ppos pow2_pos [of "bitlen q - 1"]
    by blast
  then have up: "x < pow2 (e0 + 1)"
    by (simp add: pow2_diff [symmetric] e0_def algebra_simps)
  have "pow2 (bitlen p - 1) / pow2 (bitlen q) < x"
    unfolding x
    using frac_less2 [of "pow2 (bitlen p - 1)" "of_int p" "of_int q" "pow2 (bitlen q)"]
      bitlen_rat_bounds [OF p] bitlen_rat_bounds [OF q] qpos pow2_pos [of "bitlen p - 1"]
    by blast
  then have low: "pow2 (e0 - 1) < x"
    by (simp add: pow2_diff [symmetric] e0_def algebra_simps)
  have fe: "float_exponent x = (if x < pow2 e0 then e0 - 1 else e0)"
    by (simp add: float_exponent_def pq e0_def Let_def)
  show "pow2 (float_exponent x) \<le> x"
    using low by (simp add: fe)
  show "x < pow2 (float_exponent x + 1)"
    using up by (simp add: fe)
qed

lemma float_exponent_unique:
  assumes "0 < x" "pow2 e \<le> x" "x < pow2 (e + 1)"
  shows "float_exponent x = e"
proof (rule ccontr)
  assume ne: "float_exponent x \<noteq> e"
  let ?f = "float_exponent x"
  from float_exponent_bounds [OF assms(1)]
  have b: "pow2 ?f \<le> x" "x < pow2 (?f + 1)" .
  from ne consider "?f + 1 \<le> e" | "e + 1 \<le> ?f" by linarith
  then show False
  proof cases
    case 1
    from pow2_mono [OF 1] b(2) assms(2) show False by linarith
  next
    case 2
    from pow2_mono [OF 2] b(1) assms(3) show False by linarith
  qed
qed

lemma float_exponent_mono:
  assumes "0 < x" "x \<le> y"
  shows "float_exponent x \<le> float_exponent y"
proof (rule ccontr)
  assume "\<not> float_exponent x \<le> float_exponent y"
  then have "float_exponent y + 1 \<le> float_exponent x" by linarith
  from pow2_mono [OF this] float_exponent_bounds [OF assms(1)]
    float_exponent_bounds [of y] assms
  show False by linarith
qed

lemma round_half_even_error: "\<bar>of_int (round_half_even x) - x\<bar> \<le> 1 / 2"
  unfolding round_half_even_def Let_def
  by (auto simp: abs_if not_less) linarith+

lemma round_half_even_of_int: "round_half_even (of_int n) = n"
  by (simp add: round_half_even_def)

lemma round_half_even_mono:
  assumes "x \<le> y"
  shows "round_half_even x \<le> round_half_even y"
proof (cases "\<lfloor>x\<rfloor> = \<lfloor>y\<rfloor>")
  case True
  with assms show ?thesis
    unfolding round_half_even_def Let_def by auto
next
  case False
  with assms have "\<lfloor>x\<rfloor> + 1 \<le> \<lfloor>y\<rfloor>"
    using floor_mono [OF assms] by linarith
  moreover have "round_half_even x \<le> \<lfloor>x\<rfloor> + 1"
    unfolding round_half_even_def Let_def by auto
  moreover have "\<lfloor>y\<rfloor> \<le> round_half_even y"
    unfolding round_half_even_def Let_def by auto
  ultimately show ?thesis by linarith
qed

lemma fl_pos_eq:
  assumes "0 < x"
  shows "fl x = of_int (round_half_even (x * pow2 (52 - float_exponent x)))
                  * pow2 (float_exponent x - 52)"
  using assms by (simp add: fl_def Let_def)

lemma scaled_bounds:
  assumes "0 < x"
  shows "2 ^ 52 \<le> x * pow2 (52 - float_exponent x)"
    and "x * pow2 (52 - float_exponent x) < 2 ^ 53"
proof -
  let ?e = "float_exponent x"
  have a: "pow2 ?e * pow2 (52 - ?e) = 2 ^ 52"
    by (simp add: pow2_add [symmetric] pow2_nat)
  have b: "pow2 (?e + 1) * pow2 (52 - ?e) = 2 ^ 53"
    by (simp add: pow2_add [symmetric] pow2_nat)
  from float_exponent_bounds(1) [OF assms] pow2_pos [of "52 - ?e"]
  have "pow2 ?e * pow2 (52 - ?e) \<le> x * pow2 (52 - ?e)"
    by (simp add: mult_right_mono)
  with a show "2 ^ 52 \<le> x * pow2 (52 - ?e)" by simp
  from float_exponent_bounds(2) [OF assms] pow2_pos [of "52 - ?e"]
  have "x * pow2 (52 - ?e) < pow2 (?e + 1) * pow2 (52 - ?e)"
    by (simp add: mult_strict_right_mono)
  with b show "x * pow2 (52 - ?e) < 2 ^ 53" by simp
qed

lemma mantissa_bounds:
  assumes "0 < x"
  shows "2 ^ 52 \<le> round_half_even (x * pow2 (52 - float_exponent x))"
    and "round_half_even (x * pow2 (52 - float_exponent x)) \<le> 2 ^ 53"
proof -
  let ?y = "x * pow2 (52 - float_exponent x)"
  from scaled_bounds [OF assms] have "of_int (2 ^ 52) \<le> ?y" and "?y \<le> of_int (2 ^ 53)"
    by simp_all
  from round_half_even_mono [OF this(1)] round_half_even_mono [OF this(2)]
  show "2 ^ 52 \<le> round_half_even ?y" and "round_half_even ?y \<le> 2 ^ 53"
    by (simp_all only: round_half_even_of_int)
qed

lemma fl_range:
  assumes "0 < x"
  shows "pow2 (float_exponent x) \<le> fl x" and "fl x \<le> pow2 (float_exponent x + 1)"
proof -
  let ?e = "float_exponent x"
  let ?m = "round_half_even (x * pow2 (52 - ?e))"
  have a: "2 ^ 52 * pow2 (?e - 52) = pow2 ?e"
    using pow2_add [of 52 "?e - 52"] by (simp add: pow2_nat)
  have b: "2 ^ 53 * pow2 (?e - 52) = pow2 (?e + 1)"
    using pow2_add [of 53 "?e - 52"] by (simp add: pow2_nat add.commute)
  from mantissa_bounds [OF assms]
  have m: "(2 ^ 52 :: rat) \<le> of_int ?m" "(of_int ?m :: rat) \<le> 2 ^ 53"
    by (metis of_int_le_iff of_int_numeral of_int_power)+
  from m(1) pow2_pos [of "?e - 52"] have "2 ^ 52 * pow2 (?e - 52) \<le> of_int ?m * pow2 (?e - 52)"
    by (simp add: mult_right_mono)
  then have "pow2 ?e \<le> of_int ?m * pow2 (?e - 52)"
    unfolding a .
  then show "pow2 ?e \<le> fl x"
    by (simp only: fl_pos_eq [OF assms])
  from m(2) pow2_pos [of "?e - 52"] have "of_int ?m * pow2 (?e - 52) \<le> 2 ^ 53 * pow2 (?e - 52)"
    by (simp add: mult_right_mono)
  then have "of_int ?m * pow2 (?e - 52) \<le> pow2 (?e + 1)"
    unfolding b .
  then show "fl x \<le> pow2 (?e + 1)"
    by (simp only: fl_pos_eq [OF assms])
qed

lemma fl_pos: "0 < x \<Longrightarrow> 0 < fl x"
  using fl_range(1) [of x] pow2_pos [of "float_exponent x"] by linarith

lemma fl_nonneg: "0 \<le> x \<Longrightarrow> 0 \<le> fl x"
  using fl_pos [of x] by (cases "x = 0") (simp_all add: fl_def less_imp_le)

lemma fl_mono:
  assumes "0 \<le> x" "x \<le> y"
  shows "fl x \<le> fl y"
proof (cases "x = 0")
  case True
  with assms fl_nonneg [of y] show ?thesis by (simp add: fl_def)
next
  case False
  with assms have x: "0 < x" and y: "0 < y" by simp_all
  from float_exponent_mono [OF x assms(2)]
  consider "float_exponent x = float_exponent y" | "float_exponent x + 1 \<le> float_exponent y"
    by linarith
  then show ?thesis
  proof cases
    case 1
    from assms(2) pow2_pos [of "52 - float_exponent y"]
    have "x * pow2 (52 - float_exponent y) \<le> y * pow2 (52 - float_exponent y)"
      by (simp add: mult_right_mono)
    from round_half_even_mono [OF this] pow2_pos [of "float_exponent y - 52"]
    show ?thesis
      by (simp add: fl_pos_eq [OF x] fl_pos_eq [OF y] 1 mult_right_mono)
  next
    case 2
    from fl_range(2) [OF x] pow2_mono [OF 2] fl_range(1) [OF y]
    show ?thesis by linarith
  qed
qed

lemma fl_error:
  assumes "0 < x"
  shows "\<bar>fl x - x\<bar> \<le> x / 2 ^ 53"
proof -
  let ?e = "float_exponent x"
  let ?y = "x * pow2 (52 - ?e)"
  let ?m = "round_half_even ?y"
  have unit: "pow2 (52 - ?e) * pow2 (?e - 52) = 1"
    using pow2_add [of "52 - ?e" "?e - 52"] by (simp add: pow2_zero)
  have "fl x - x = (of_int ?m - ?y) * pow2 (?e - 52)"
    using unit by (simp add: fl_pos_eq [OF assms] algebra_simps)
  then have "\<bar>fl x - x\<bar> = \<bar>of_int ?m - ?y\<bar> * pow2 (?e - 52)"
    using pow2_pos [of "?e - 52"] by (simp add: abs_mult)
  also have "\<dots> \<le> (1 / 2) * pow2 (?e - 52)"
    using round_half_even_error [of ?y] pow2_pos [of "?e - 52"]
    by (intro mult_right_mono) simp_all
  also have "\<dots> = pow2 ?e / 2 ^ 53"
    using pow2_diff [of ?e 52] by (simp add: pow2_nat)
  also have "\<dots> \<le> x / 2 ^ 53"
    using float_exponent_bounds(1) [OF assms] by (simp add: divide_right_mono)
  finally show ?thesis .
qed

section \<open>The sweep enumerates the matrix\<close>





section \<open>File names of the comparison artifact\<close>

text \<open>
  C4 (as stated, refuted). The claim says that a scale other than 1.0 with quality 100
  omits the quality suffix. At scale 2/3 and quality 100 the name is
  \<^verbatim>\<open>name_s66_q100_combined.jpg\<close>: the quality suffix is there.
\<close>

theorem combined_filename_keeps_quality_suffix:
  "combined_filename ''name'' (py_truediv 2 3) 100 = ''name_s66_q100_combined.jpg''
   \<and> combined_filename ''name'' (py_truediv 2 3) 100 \<noteq> ''name_s66_combined.jpg''"
  by (simp add: combined_filename_def scales_not_one percent_values str_values)

text \<open>
  C4 (amended). For every base name, over the whole matrix: scale 1.0 with quality 100
  gives the literal \<^verbatim>\<open>original\<close>; scale 1.0 with another quality gives the quality suffix
  only; every other scale gives the scale suffix followed by the quality suffix, also at
  quality 100.
\<close>

theorem combined_filename_matrix:
  "map (\<lambda>(s, q). combined_filename name s q) (List.product scales qualities) =
     [name @ ''_original_combined.jpg'', name @ ''_q90_combined.jpg'',
      name @ ''_q70_combined.jpg'', name @ ''_q50_combined.jpg'',
      name @ ''_q30_combined.jpg'', name @ ''_q10_combined.jpg'',
      name @ ''_s66_q100_combined.jpg'', name @ ''_s66_q90_combined.jpg'',
      name @ ''_s66_q70_combined.jpg'', name @ ''_s66_q50_combined.jpg'',
      name @ ''_s66_q30_combined.jpg'', name @ ''_s66_q10_combined.jpg'',
      name @ ''_s33_q100_combined.jpg'', name @ ''_s33_q90_combined.jpg'',
      name @ ''_s33_q70_combined.jpg'', name @ ''_s33_q50_combined.jpg'',
      name @ ''_s33_q30_combined.jpg'', name @ ''_s33_q10_combined.jpg'']"
  by (simp add: scales_def qualities_def combined_filename_def scales_not_one percent_values
      str_values)

section \<open>The shape of a result record\<close>

lemma dict_set_response:
  "dict_set (success_result w f out q s p) ''response'' v =
     [(''success'', JBool True), (''file_path'', JStr f), (''output_path'', JStr out),
      (''quality'', JInt q), (''scale_factor'', JFloat s),
      (''timestamp'', JStr (timestamp w f q s)),
      (''processing_time'', JFloat (elapsed w f q s)),
      (''payload'', p), (''response'', v)]"
  by (simp add: dict_set_def success_result_def)

lemma success_result_response:
  "success_result w f out q s p = dict_set (success_result w f out q s p) ''response'' JNull"
  by (simp add: dict_set_def success_result_def)

text \<open>Every run of \<^verbatim>\<open>process_file\<close> returns one of its failure records, or the success
  record of an image that was encoded and a request that was answered.\<close>

lemma process_file_shape:
  "(\<exists>m. process_file w u pw f q s = failure_result w m f q s)
   \<or> (\<exists>b out reply v.
         process_image w 896 f q s = Some (b, out)
         \<and> http_post w (u @ ''/v1/chat/completions'') (request_headers pw) (build_payload b)
             = Inr reply
         \<and> v = (case extract_response reply of Inr (Some x) \<Rightarrow> x | _ \<Rightarrow> JNull)
         \<and> process_file w u pw f q s
             = dict_set (success_result w f out q s (build_payload b)) ''response'' v)"
  unfolding process_file_def Let_def
  by (auto split: option.splits sum.splits prod.splits simp: success_result_response [symmetric])

lemma failure_not_success: "\<not> is_success (failure_result w m f q s)"
  by (simp add: is_success_def failure_result_def)

lemma failure_success_field: "map_of (failure_result w m f q s) ''success'' = Some (JBool False)"
  by (simp add: failure_result_def)

lemma success_is_success: "is_success (dict_set (success_result w f out q s p) ''response'' v)"
  by (simp add: is_success_def dict_set_response)

lemma failure_keys:
  "map fst (failure_result w m f q s) =
     [''success'', ''error'', ''file_path'', ''quality'', ''scale_factor'', ''timestamp'']"
  by (simp add: failure_result_def)

lemma success_keys:
  "map fst (dict_set (success_result w f out q s p) ''response'' v) =
     [''success'', ''file_path'', ''output_path'', ''quality'', ''scale_factor'', ''timestamp'',
      ''processing_time'', ''payload'', ''response'']"
  by (simp add: dict_set_response)

text \<open>
  C10. A result record of \<^verbatim>\<open>process_file\<close> with \<^verbatim>\<open>success = False\<close>, whether the
  encoding or the inference failed, has exactly the fields success, error, file_path,
  quality, scale_factor and timestamp; output_path, processing_time, payload and response
  are not there. A record with \<^verbatim>\<open>success = True\<close> has nine fields, so a failure record
  has fewer fields than any success record.
\<close>

theorem failed_result_fields:
  assumes "map_of (process_file w u pw f q s) ''success'' = Some (JBool False)"
  shows "map fst (process_file w u pw f q s) =
           [''success'', ''error'', ''file_path'', ''quality'', ''scale_factor'', ''timestamp'']
         \<and> map_of (process_file w u pw f q s) ''output_path'' = None
         \<and> map_of (process_file w u pw f q s) ''processing_time'' = None
         \<and> map_of (process_file w u pw f q s) ''payload'' = None
         \<and> map_of (process_file w u pw f q s) ''response'' = None
         \<and> (map_of (process_file w' u' pw' f' q' s') ''success'' = Some (JBool True) \<longrightarrow>
              map fst (process_file w' u' pw' f' q' s') =
                [''success'', ''file_path'', ''output_path'', ''quality'', ''scale_factor'',
                 ''timestamp'', ''processing_time'', ''payload'', ''response'']
              \<and> length (process_file w u pw f q s) < length (process_file w' u' pw' f' q' s'))"
proof -
  from process_file_shape [of w u pw f q s] assms
  obtain m where r: "process_file w u pw f q s = failure_result w m f q s"
    by (auto simp: dict_set_response)
  have keys: "map fst (process_file w u pw f q s) =
           [''success'', ''error'', ''file_path'', ''quality'', ''scale_factor'', ''timestamp'']"
    by (simp add: r failure_keys)
  have absent: "map_of (process_file w u pw f q s) ''output_path'' = None"
    "map_of (process_file w u pw f q s) ''processing_time'' = None"
    "map_of (process_file w u pw f q s) ''payload'' = None"
    "map_of (process_file w u pw f q s) ''response'' = None"
    by (simp_all add: r failure_result_def)
  have other: "map fst (process_file w' u' pw' f' q' s') =
                [''success'', ''file_path'', ''output_path'', ''quality'', ''scale_factor'',
                 ''timestamp'', ''processing_time'', ''payload'', ''response'']
              \<and> length (process_file w u pw f q s) < length (process_file w' u' pw' f' q' s')"
    if "map_of (process_file w' u' pw' f' q' s') ''success'' = Some (JBool True)"
  proof -
    from process_file_shape [of w' u' pw' f' q' s'] that
    obtain out p v where r': "process_file w' u' pw' f' q' s'
         = dict_set (success_result w' f' out q' s' p) ''response'' v"
      by (auto simp: failure_success_field)
    show ?thesis
      by (simp add: r r' success_keys) (simp add: dict_set_response failure_result_def)
  qed
  from keys absent other show ?thesis by blast
qed

theorem failed_result_fields_witness:
  "map_of (process_file world_unreadable ''http://h'' '''' ''imgs/a.png'' 100 1) ''success''
     = Some (JBool False)
   \<and> map fst (process_file world_unreadable ''http://h'' '''' ''imgs/a.png'' 100 1) =
           [''success'', ''error'', ''file_path'', ''quality'', ''scale_factor'', ''timestamp'']
   \<and> map_of (process_file world_ok ''http://h'' '''' ''imgs/a.png'' 100 1) ''success''
     = Some (JBool True)
   \<and> length (process_file world_unreadable ''http://h'' '''' ''imgs/a.png'' 100 1)
       < length (process_file world_ok ''http://h'' '''' ''imgs/a.png'' 100 1)"
proof -
  have failed:
    "map_of (process_file world_unreadable ''http://h'' '''' ''imgs/a.png'' 100 1) ''success''
       = Some (JBool False)"
    by code_simp
  have succeeded:
    "map_of (process_file world_ok ''http://h'' '''' ''imgs/a.png'' 100 1) ''success''
       = Some (JBool True)"
    by code_simp
  from failed_result_fields [OF failed, of world_ok "''http://h''" "''''" "''imgs/a.png''" 100 1]
    failed succeeded
  show ?thesis by blast
qed

section \<open>Success and response\<close>

text \<open>
  C6 (as stated, refuted). The claim says that \<^verbatim>\<open>success = True\<close> implies that the response
  text is present, also when the API reply lacks \<^verbatim>\<open>choices\<close>. When the reply is the empty
  JSON object, the record has \<^verbatim>\<open>success = True\<close> and its response is \<^verbatim>\<open>None\<close>.
\<close>

theorem success_without_response:
  "map_of (process_file world_no_choices ''http://h'' '''' ''imgs/a.png'' 100 1) ''success''
     = Some (JBool True)
   \<and> map_of (process_file world_no_choices ''http://h'' '''' ''imgs/a.png'' 100 1) ''response''
     = Some JNull"
  by code_simp

lemma extract_response_no_choices:
  "''choices'' \<notin> fst ` set kvs \<Longrightarrow> extract_response (JObj kvs) = Inr None"
  by (simp add: extract_response_def py_in_def)

lemma extract_response_empty_choices:
  "map_of kvs ''choices'' = Some (JArr []) \<Longrightarrow> extract_response (JObj kvs) = Inr None"
  by (auto simp: extract_response_def py_in_def py_getitem_def py_len_def
      dest: map_of_SomeD split: bool.splits)

text \<open>
  C6 (amended). For every run of \<^verbatim>\<open>process_file\<close>: \<^verbatim>\<open>success = True\<close> implies that the
  image was encoded, the request payload was sent and answered and is recorded, and the
  response field is there, holding what was extracted from the reply, which is \<^verbatim>\<open>None\<close>
  when the reply is an object without \<^verbatim>\<open>choices\<close> or with an empty \<^verbatim>\<open>choices\<close> list;
  \<^verbatim>\<open>success = False\<close> implies that the response field (and the payload) is absent.
\<close>

theorem result_invariant:
  "(is_success (process_file w u pw f q s) \<longrightarrow>
      (\<exists>b out reply.
          process_image w 896 f q s = Some (b, out)
        \<and> http_post w (u @ ''/v1/chat/completions'') (request_headers pw) (build_payload b)
            = Inr reply
        \<and> map_of (process_file w u pw f q s) ''payload'' = Some (build_payload b)
        \<and> map_of (process_file w u pw f q s) ''response''
            = Some (case extract_response reply of Inr (Some x) \<Rightarrow> x | _ \<Rightarrow> JNull)
        \<and> (\<forall>kvs. reply = JObj kvs
                \<and> (''choices'' \<notin> fst ` set kvs \<or> map_of kvs ''choices'' = Some (JArr []))
              \<longrightarrow> map_of (process_file w u pw f q s) ''response'' = Some JNull)))
   \<and> (\<not> is_success (process_file w u pw f q s) \<longrightarrow>
        map_of (process_file w u pw f q s) ''success'' = Some (JBool False)
      \<and> map_of (process_file w u pw f q s) ''response'' = None
      \<and> map_of (process_file w u pw f q s) ''payload'' = None)"
proof -
  consider (fail) m where "process_file w u pw f q s = failure_result w m f q s"
    | (ok) b out reply v where
        "process_image w 896 f q s = Some (b, out)"
        "http_post w (u @ ''/v1/chat/completions'') (request_headers pw) (build_payload b)
           = Inr reply"
        "v = (case extract_response reply of Inr (Some x) \<Rightarrow> x | _ \<Rightarrow> JNull)"
        "process_file w u pw f q s
           = dict_set (success_result w f out q s (build_payload b)) ''response'' v"
    using process_file_shape [of w u pw f q s] by blast
  then show ?thesis
  proof cases
    case fail
    then show ?thesis
      by (simp add: failure_not_success) (simp add: failure_result_def)
  next
    case ok
    have succ: "is_success (process_file w u pw f q s)"
      by (simp add: ok(4) success_is_success)
    have pl: "map_of (process_file w u pw f q s) ''payload'' = Some (build_payload b)"
      by (simp add: ok(4) dict_set_response)
    have rs: "map_of (process_file w u pw f q s) ''response''
            = Some (case extract_response reply of Inr (Some x) \<Rightarrow> x | _ \<Rightarrow> JNull)"
      by (simp add: ok(4) ok(3) dict_set_response)
    have nc: "map_of (process_file w u pw f q s) ''response'' = Some JNull"
      if "reply = JObj kvs"
         "''choices'' \<notin> fst ` set kvs \<or> map_of kvs ''choices'' = Some (JArr [])" for kvs
      using that rs extract_response_no_choices [of kvs] extract_response_empty_choices [of kvs]
      by auto
    from succ ok(1) ok(2) pl rs nc show ?thesis by blast
  qed
qed

theorem result_invariant_witness:
  "is_success (process_file world_no_choices ''http://h'' '''' ''imgs/a.png'' 100 1)
   \<and> map_of (process_file world_no_choices ''http://h'' '''' ''imgs/a.png'' 100 1) ''payload''
       = Some (build_payload ''QUJD'')
   \<and> \<not> is_success (process_file world_unreadable ''http://h'' '''' ''imgs/a.png'' 100 1)
   \<and> map_of (process_file world_unreadable ''http://h'' '''' ''imgs/a.png'' 100 1) ''response''
       = None"
proof -
  have succeeded: "is_success (process_file world_no_choices ''http://h'' '''' ''imgs/a.png'' 100 1)"
    by code_simp
  have encoded: "process_image world_no_choices 896 ''imgs/a.png'' 100 1
                   = Some (''QUJD'', ''imgs/a_q100_s100.jpg'')"
    by code_simp
  have failed: "\<not> is_success (process_file world_unreadable ''http://h'' '''' ''imgs/a.png'' 100 1)"
    by code_simp
  from result_invariant [of world_no_choices "''http://h''" "''''" "''imgs/a.png''" 100 1]
    succeeded encoded
  have "map_of (process_file world_no_choices ''http://h'' '''' ''imgs/a.png'' 100 1) ''payload''
       = Some (build_payload ''QUJD'')"
    by auto
  moreover
  from result_invariant [of world_unreadable "''http://h''" "''''" "''imgs/a.png''" 100 1] failed
  have "map_of (process_file world_unreadable ''http://h'' '''' ''imgs/a.png'' 100 1) ''response''
       = None"
    by blast
  ultimately show ?thesis using succeeded failed by blast
qed

section \<open>Rendering a record without response\<close>

text \<open>
  C9. When the response field of a record holds \<^verbatim>\<open>None\<close>, as in a success record made
  from a reply without \<^verbatim>\<open>choices\<close>, \<^verbatim>\<open>create_side_by_side_image\<close> returns \<^verbatim>\<open>None\<close>: the
  default \<^verbatim>\<open>No response\<close> is not used, since the key is present, and \<^verbatim>\<open>None\<close> has no
  method \<^verbatim>\<open>split\<close>.
\<close>

theorem render_fails_on_absent_response:
  assumes "map_of result ''response'' = Some JNull"
  shows "create_side_by_side_image w original_path result output_dir = None"
  using assms unfolding create_side_by_side_image_def Let_def
  by (simp split: option.splits prod.splits)

theorem render_fails_on_absent_response_witness:
  "is_success (process_file world_no_choices ''http://h'' '''' ''imgs/a.png'' 100 1)
   \<and> map_of (process_file world_no_choices ''http://h'' '''' ''imgs/a.png'' 100 1) ''response''
       = Some JNull
   \<and> create_side_by_side_image world_no_choices ''imgs/a.png''
        (process_file world_no_choices ''http://h'' '''' ''imgs/a.png'' 100 1) ''out'' = None"
proof -
  have succeeded: "is_success (process_file world_no_choices ''http://h'' '''' ''imgs/a.png'' 100 1)"
    by code_simp
  have absent: "map_of (process_file world_no_choices ''http://h'' '''' ''imgs/a.png'' 100 1)
             ''response'' = Some JNull"
    by code_simp
  from succeeded absent
    render_fails_on_absent_response [OF absent, of world_no_choices "''imgs/a.png''" "''out''"]
  show ?thesis by blast
qed

section \<open>Persisted JSON documents\<close>





section \<open>The output path of an encoded variant\<close>

lemma percent_floor:
  "scale_percent 1 = \<lfloor>1 * 100 :: rat\<rfloor>"
  "scale_percent (py_truediv 2 3) = \<lfloor>py_truediv 2 3 * 100\<rfloor>"
  "scale_percent (py_truediv 1 3) = \<lfloor>py_truediv 1 3 * 100\<rfloor>"
  by code_simp+

text \<open>
  C7 (as stated, refuted). The claim says that the scale suffix is the scale times 100
  rounded to the nearest integer, \<^verbatim>\<open>s67\<close> for the scale 2/3. The program truncates with
  \<^verbatim>\<open>int()\<close>: at scale 2/3 and quality 90 the path of \<^verbatim>\<open>imgs/name.png\<close> is
  \<^verbatim>\<open>imgs/name_q90_s66.jpg\<close>.
\<close>

theorem variant_path_not_rounded:
  "process_image world_ok 896 ''imgs/name.png'' 90 (py_truediv 2 3)
     = Some (''QUJD'', ''imgs/name_q90_s66.jpg'')
   \<and> str_int (round (py_truediv 2 3 * 100)) = ''67''
   \<and> ''imgs/name_q90_s66.jpg''
       \<noteq> ''imgs/name_q90_s'' @ str_int (round (py_truediv 2 3 * 100)) @ ''.jpg''"
  by code_simp

text \<open>
  C7 (amended). For every quality (so for every quality from 1 to 100) and every scale of
  the fixed list, the path that \<^verbatim>\<open>process_image\<close> returns is the directory of the source
  file joined with \<^verbatim>\<open>{basename}_q{quality}_s{p}.jpg\<close>, where \<open>p\<close> is the scale times 100
  truncated to an integer: 100, 66 and 33 for the three scales.
\<close>

theorem variant_path_truncated:
  assumes "process_image w 896 fp q s = Some (b, path)" and "s \<in> set scales"
  shows "path = path_join (path_dirname fp)
                  (fst (path_splitext (path_basename fp)) @ ''_q'' @ str_int q @ ''_s''
                     @ str_int \<lfloor>s * 100\<rfloor> @ ''.jpg'')
         \<and> map (\<lambda>s. str_int \<lfloor>s * 100\<rfloor>) scales = [''100'', ''66'', ''33'']"
proof -
  from assms(2) have pct: "scale_percent s = \<lfloor>s * 100\<rfloor>"
    using percent_floor by (auto simp: scales_def)
  from assms(1) have "path = variant_output_path fp q s"
    by (auto simp: process_image_def split: if_splits option.splits prod.splits)
  then have p: "path = path_join (path_dirname fp)
                  (fst (path_splitext (path_basename fp)) @ ''_q'' @ str_int q @ ''_s''
                     @ str_int \<lfloor>s * 100\<rfloor> @ ''.jpg'')"
    by (simp add: variant_output_path_def Let_def pct)
  have "map (\<lambda>s. str_int \<lfloor>s * 100\<rfloor>) scales = [''100'', ''66'', ''33'']"
    using percent_floor percent_values str_values by (simp add: scales_def)
  with p show ?thesis by blast
qed

theorem variant_path_truncated_witness:
  "process_image world_ok 896 ''imgs/name.png'' 30 (py_truediv 1 3)
     = Some (''QUJD'', ''imgs/name_q30_s33.jpg'')
   \<and> py_truediv 1 3 \<in> set scales
   \<and> ''imgs/name_q30_s33.jpg'' = path_join (path_dirname ''imgs/name.png'')
        (fst (path_splitext (path_basename ''imgs/name.png'')) @ ''_q'' @ str_int 30 @ ''_s''
           @ str_int \<lfloor>py_truediv 1 3 * 100\<rfloor> @ ''.jpg'')"
proof -
  have returned: "process_image world_ok 896 ''imgs/name.png'' 30 (py_truediv 1 3)
     = Some (''QUJD'', ''imgs/name_q30_s33.jpg'')"
    by code_simp
  have listed: "py_truediv 1 3 \<in> set scales"
    by (simp add: scales_def)
  from variant_path_truncated [OF returned listed] returned listed show ?thesis by blast
qed

section \<open>The constrained size\<close>

text \<open>The value \<^verbatim>\<open>int(a * (b / c))\<close> of the program against the exact \<open>a * b / c\<close>.\<close>

lemma two_roundings:
  assumes "0 < a" "0 < b" "0 < c"
  defines "X \<equiv> of_int a * of_int b / of_int c"
  defines "r \<equiv> py_mul a (py_truediv b c)"
  shows "0 \<le> r" and "\<bar>r - X\<bar> \<le> 3 * X / 2 ^ 53"
proof -
  define q :: rat where "q = of_int b / of_int c"
  define r1 where "r1 = fl q"
  define d where "d = X / 2 ^ 53"
  have apos: "(0::rat) < of_int a" using assms(1) by simp
  have qpos: "0 < q" using assms(2,3) by (simp add: q_def)
  have Xeq: "X = of_int a * q" by (simp add: X_def q_def)
  have Xpos: "0 < X" using apos qpos by (simp add: Xeq)
  have dpos: "0 \<le> d" using Xpos by (simp add: d_def)
  have r1pos: "0 < r1" using fl_pos [OF qpos] by (simp add: r1_def)
  have e1: "\<bar>r1 - q\<bar> \<le> q / 2 ^ 53"
    using fl_error [OF qpos] by (simp add: r1_def)
  have "\<bar>of_int a * r1 - X\<bar> = of_int a * \<bar>r1 - q\<bar>"
    using apos by (simp add: Xeq abs_mult right_diff_distrib [symmetric])
  also have "\<dots> \<le> of_int a * (q / 2 ^ 53)"
    using e1 apos by (simp add: mult_left_mono)
  also have "\<dots> = d" by (simp add: d_def Xeq)
  finally have s1: "\<bar>of_int a * r1 - X\<bar> \<le> d" .
  have ypos: "0 < of_int a * r1" using apos r1pos by simp
  have req: "r = fl (of_int a * r1)"
    by (simp add: r_def py_mul_def py_truediv_def r1_def q_def)
  show "0 \<le> r" using fl_pos [OF ypos] by (simp add: req)
  have e2: "\<bar>r - of_int a * r1\<bar> \<le> of_int a * r1 / 2 ^ 53"
    using fl_error [OF ypos] by (simp add: req)
  have "of_int a * r1 \<le> X + d" using s1 by linarith
  then have "of_int a * r1 / 2 ^ 53 \<le> (X + d) / 2 ^ 53"
    by (simp add: divide_right_mono)
  also have "\<dots> = d + d / 2 ^ 53" by (simp add: d_def add_divide_distrib)
  also have "\<dots> \<le> d + d" using dpos by (simp add: field_simps)
  finally have s2: "\<bar>r - of_int a * r1\<bar> \<le> 2 * d" using e2 by linarith
  from s1 s2 have "\<bar>r - X\<bar> \<le> 3 * d" by linarith
  then show "\<bar>r - X\<bar> \<le> 3 * X / 2 ^ 53" by (simp add: d_def)
qed

lemma scaled_side_bounds:
  assumes "0 < a" "0 < b" "0 < c" "a * b < 2 ^ 51"
  defines "n \<equiv> py_int (py_mul a (py_truediv b c))"
  shows "0 \<le> n" and "n * c \<le> a * b" and "a * b - c \<le> n * c"
proof -
  define X :: rat where "X = of_int a * of_int b / of_int c"
  define r where "r = py_mul a (py_truediv b c)"
  from two_roundings [OF assms(1-3)]
  have rpos: "0 \<le> r" and err: "\<bar>r - X\<bar> \<le> 3 * X / 2 ^ 53"
    by (simp_all add: r_def X_def)
  have n: "n = \<lfloor>r\<rfloor>" using rpos by (simp add: n_def py_int_def r_def)
  show "0 \<le> n" using rpos by (simp add: n)
  have cpos: "(0::rat) < of_int c" using assms(3) by simp
  define A :: rat where "A = of_int (a * b)"
  have XA: "X * of_int c = A" using cpos by (simp add: X_def A_def)
  have Abound: "A < 2 ^ 51"
    using assms(4) unfolding A_def by (metis of_int_less_iff of_int_numeral of_int_power)
  have Apos: "0 < A" using assms(1,2) by (simp add: A_def)
  have step: "\<bar>r - X\<bar> * of_int c \<le> (3 * X / 2 ^ 53) * of_int c"
    using err cpos by (intro mult_right_mono) simp_all
  have "r * of_int c - A = (r - X) * of_int c"
    by (simp add: XA [symmetric] left_diff_distrib)
  then have lhs: "\<bar>r * of_int c - A\<bar> = \<bar>r - X\<bar> * of_int c"
    using cpos by (simp add: abs_mult)
  have rhs: "(3 * X / 2 ^ 53) * of_int c = 3 * A / 2 ^ 53"
    by (simp add: XA [symmetric])
  from step have "\<bar>r * of_int c - A\<bar> \<le> 3 * A / 2 ^ 53"
    unfolding lhs rhs .
  moreover have "3 * A / 2 ^ 53 < 1" using Abound by simp
  ultimately have close: "\<bar>r * of_int c - A\<bar> < 1" by linarith
  have "of_int n \<le> r" by (simp add: n)
  then have "of_int n * of_int c \<le> r * of_int c"
    using cpos by (simp add: mult_right_mono)
  with close have "(of_int (n * c) :: rat) < of_int (a * b + 1)"
    by (simp add: A_def)
  then have "n * c < a * b + 1" by (simp only: of_int_less_iff)
  then show "n * c \<le> a * b" by simp
  have "r < of_int n + 1" unfolding n by linarith
  then have "r * of_int c < (of_int n + 1) * of_int c"
    using cpos by (simp add: mult_strict_right_mono)
  with close have "(of_int (a * b - c - 1) :: rat) < of_int (n * c)"
    by (simp add: A_def algebra_simps)
  then have "a * b - c - 1 < n * c" by (simp only: of_int_less_iff)
  then show "a * b - c \<le> n * c" by simp
qed

text \<open>
  C2. For a width, a height and a bound that are positive, the computed size has both
  sides at most the bound; when both sides are within the bound already, the size is
  unchanged, so nothing is ever scaled up; when a side exceeds the bound, the longer side
  (the width when it is greater than the height, the height otherwise) becomes the bound
  exactly, and the other side is at most the exactly scaled value and at least that value
  minus one pixel: the aspect ratio is kept to within one pixel. The hypotheses on the
  products keep the float arithmetic exact enough; they hold for every image size below
  \<open>2\<^sup>4\<^sup>1\<close> under the bounds 896, 597 and 298 of the program.
\<close>

theorem constrain_dimensions_correct:
  assumes "0 < width" "0 < height" "0 < emd"
    and "width * emd < 2 ^ 51" "height * emd < 2 ^ 51"
  shows "\<exists>nw nh. constrain_dimensions width height emd = Some (nw, nh)
           \<and> 0 \<le> nw \<and> 0 \<le> nh \<and> nw \<le> emd \<and> nh \<le> emd
           \<and> (width \<le> emd \<and> height \<le> emd \<longrightarrow> nw = width \<and> nh = height)
           \<and> (width > emd \<or> height > emd \<longrightarrow>
                (if width > height
                 then nw = emd
                      \<and> of_int height * of_int emd / of_int width - 1 \<le> (of_int nh :: rat)
                      \<and> (of_int nh :: rat) \<le> of_int height * of_int emd / of_int width
                 else nh = emd
                      \<and> of_int width * of_int emd / of_int height - 1 \<le> (of_int nw :: rat)
                      \<and> (of_int nw :: rat) \<le> of_int width * of_int emd / of_int height))"
proof (cases "width > emd \<or> height > emd")
  case False
  with assms show ?thesis
    by (simp add: constrain_dimensions_def)
next
  case resize: True
  show ?thesis
  proof (cases "width > height")
    case True
    define nh where "nh = py_int (py_mul height (py_truediv emd width))"
    from scaled_side_bounds [OF assms(2) assms(3) assms(1) assms(5)]
    have b: "0 \<le> nh" "nh * width \<le> height * emd" "height * emd - width \<le> nh * width"
      by (simp_all add: nh_def)
    have wpos: "(0::rat) < of_int width" using assms(1) by simp
    have "height * emd \<le> width * emd"
      using True assms(3) by (simp add: mult_right_mono)
    with b(2) have "nh * width \<le> emd * width" by (simp add: mult.commute)
    then have le: "nh \<le> emd" using assms(1) by simp
    from b(2) have "(of_int (nh * width) :: rat) \<le> of_int (height * emd)"
      by (simp only: of_int_le_iff)
    then have up: "(of_int nh :: rat) \<le> of_int height * of_int emd / of_int width"
      using wpos by (simp add: pos_le_divide_eq)
    from b(3) have "(of_int (height * emd - width) :: rat) \<le> of_int (nh * width)"
      by (simp only: of_int_le_iff)
    then have lo: "of_int height * of_int emd / of_int width - 1 \<le> (of_int nh :: rat)"
      using wpos by (simp add: pos_divide_le_eq algebra_simps)
    have "constrain_dimensions width height emd = Some (emd, nh)"
      using resize True assms(1) by (simp add: constrain_dimensions_def nh_def)
    moreover from resize have "\<not> (width \<le> emd \<and> height \<le> emd)" by linarith
    ultimately show ?thesis using b(1) le up lo resize True assms(3) by (simp; blast)
  next
    case False
    define nw where "nw = py_int (py_mul width (py_truediv emd height))"
    from scaled_side_bounds [OF assms(1) assms(3) assms(2) assms(4)]
    have b: "0 \<le> nw" "nw * height \<le> width * emd" "width * emd - height \<le> nw * height"
      by (simp_all add: nw_def)
    have hpos: "(0::rat) < of_int height" using assms(2) by simp
    have "width * emd \<le> height * emd"
      using False assms(3) by (simp add: mult_right_mono)
    with b(2) have "nw * height \<le> emd * height" by (simp add: mult.commute)
    then have le: "nw \<le> emd" using assms(2) by simp
    from b(2) have "(of_int (nw * height) :: rat) \<le> of_int (width * emd)"
      by (simp only: of_int_le_iff)
    then have up: "(of_int nw :: rat) \<le> of_int width * of_int emd / of_int height"
      using hpos by (simp add: pos_le_divide_eq)
    from b(3) have "(of_int (width * emd - height) :: rat) \<le> of_int (nw * height)"
      by (simp only: of_int_le_iff)
    then have lo: "of_int width * of_int emd / of_int height - 1 \<le> (of_int nw :: rat)"
      using hpos by (simp add: pos_divide_le_eq algebra_simps)
    have "constrain_dimensions width height emd = Some (nw, emd)"
      using resize False assms(2) by (simp add: constrain_dimensions_def nw_def)
    moreover from resize have "\<not> (width \<le> emd \<and> height \<le> emd)" by linarith
    ultimately show ?thesis using b(1) le up lo resize False assms(3) by (simp; blast)
  qed
qed

theorem constrain_dimensions_correct_witness:
  "(0::int) < 1920 \<and> (0::int) < 1080 \<and> (0::int) < 298
   \<and> (1920::int) * 298 < 2 ^ 51 \<and> (1080::int) * 298 < 2 ^ 51
   \<and> (\<exists>nw nh. constrain_dimensions 1920 1080 298 = Some (nw, nh)
          \<and> nw = 298 \<and> 0 \<le> nh \<and> nh \<le> 298
          \<and> 1080 * 298 / 1920 - 1 \<le> (of_int nh :: rat)
          \<and> (of_int nh :: rat) \<le> 1080 * 298 / 1920)
   \<and> (\<exists>nw nh. constrain_dimensions 640 480 896 = Some (nw, nh) \<and> nw = 640 \<and> nh = 480)"
proof -
  from constrain_dimensions_correct [of 1920 1080 298]
  have resized: "\<exists>nw nh. constrain_dimensions 1920 1080 298 = Some (nw, nh)
          \<and> nw = 298 \<and> 0 \<le> nh \<and> nh \<le> 298
          \<and> 1080 * 298 / 1920 - 1 \<le> (of_int nh :: rat)
          \<and> (of_int nh :: rat) \<le> 1080 * 298 / 1920"
    by simp
  from constrain_dimensions_correct [of 640 480 896]
  have kept: "\<exists>nw nh. constrain_dimensions 640 480 896 = Some (nw, nh) \<and> nw = 640 \<and> nh = 480"
    by simp
  from resized kept show ?thesis by simp
qed

text \<open>A square image where the float rounding shows: the scaled side is one pixel below
  the bound.\<close>

lemma square_1077_example: "constrain_dimensions 1077 1077 896 = Some (895, 896)"
  by code_simp

section \<open>Estimated widths and the words of a line\<close>

text \<open>The estimated width grows with the length of the string, strictly so for every string
  a machine can hold; a word of a line is not empty and is the whole line when it is as
  long as the line.\<close>

lemma glyph_width_value: "py_mul font_size (fl (6 / 10)) = 4728779608739021 / 562949953421312"
  by code_simp

lemma est_width_eq:
  "est_width s = \<lfloor>fl (of_nat (length s) * (4728779608739021 / 562949953421312))\<rfloor>"
proof -
  have "0 \<le> fl (of_nat (length s) * (4728779608739021 / 562949953421312))"
    by (rule fl_nonneg) simp
  then show ?thesis
    unfolding est_width_def glyph_width_value by (simp add: py_mul_def py_int_def)
qed

lemma est_width_mono:
  assumes "length a \<le> length b"
  shows "est_width a \<le> est_width b"
proof -
  from assms have "(of_nat (length a) :: rat) * (4728779608739021 / 562949953421312)
      \<le> of_nat (length b) * (4728779608739021 / 562949953421312)"
    by (intro mult_right_mono) simp_all
  then have "fl (of_nat (length a) * (4728779608739021 / 562949953421312))
      \<le> fl (of_nat (length b) * (4728779608739021 / 562949953421312))"
    by (intro fl_mono) simp_all
  then show ?thesis
    unfolding est_width_eq by (rule floor_mono)
qed





section \<open>The greedy word wrap\<close>







text \<open>With \<open>N\<close> usable characters per line, that is when a string of \<open>N + 1\<close> characters
  does not fit, no word longer than \<open>N\<close> fits.\<close>

lemma usable_characters:
  assumes "\<not> est_width (replicate (Suc N) c) < img_width - 20" and "N < length word"
  shows "\<not> est_width word < img_width - 20"
proof -
  from assms(2) have "length (replicate (Suc N) c) \<le> length word" by simp
  from est_width_mono [OF this] assms(1) show ?thesis by linarith
qed



text \<open>Two runs: a long word in the middle of a line, and a long word at the start of a
  line, where the empty current line is drawn before it.\<close>

lemma wrapped_example:
  "snd (draw_response 100 ''aa bbbbbbbbbbbbbbbbbbbbb cc dd'' (114, [])) =
     [DrawText 110 114 ''aa'', DrawText 110 130 ''bbbbbbbbbbbbbbbbbbbbb'',
      DrawText 110 146 ''cc dd'']"
  by code_simp

lemma first_word_example:
  "snd (draw_response 100 ''bbbbbbbbbbbbbbbbbbbbb cc'' (114, [])) =
     [DrawText 110 114 [], DrawText 110 130 ''bbbbbbbbbbbbbbbbbbbbb'', DrawText 110 146 ''cc'']"
  by code_simp

text \<open>What \<^verbatim>\<open>create_side_by_side_image\<close> draws last is the response, and a record of
  \<^verbatim>\<open>process_file\<close> with a string response is rendered whatever the string is.\<close>

lemma render_draws_response:
  assumes "create_side_by_side_image w original_path result output_dir = Some (path, canvas, ops)"
  shows "\<exists>response_text img_width st.
           (map_of result ''response'' = Some (JStr response_text)
            \<or> map_of result ''response'' = None \<and> response_text = ''No response'')
           \<and> ops = snd (draw_response img_width response_text st)"
  using assms unfolding create_side_by_side_image_def Let_def
  by (auto split: option.splits prod.splits json.splits if_splits)

lemma display_dimensions_defined:
  "0 < width \<Longrightarrow> 0 < height \<Longrightarrow> display_dimensions width height emd \<noteq> None"
  by (simp add: display_dimensions_def)

lemma render_succeeds:
  assumes "is_success (process_file w u pw f q s)"
    and "map_of (process_file w u pw f q s) ''response'' = Some (JStr response_text)"
    and "image_size w f = Some (width, height)" "0 < width" "0 < height"
    and "\<And>dims. resize_ok w f dims"
  shows "create_side_by_side_image w f (process_file w u pw f q s) output_dir \<noteq> None"
proof -
  from process_file_shape [of w u pw f q s] assms(1)
  obtain out b v where r: "process_file w u pw f q s
         = dict_set (success_result w f out q s (build_payload b)) ''response'' v"
    by (auto simp: failure_not_success)
  from assms(2) have v: "v = JStr response_text"
    by (simp add: r dict_set_response)
  obtain dw dh where dd: "display_dimensions width height (effective_max_dimension 896 s)
                            = Some (dw, dh)"
    using display_dimensions_defined [OF assms(4,5)] by fastforce
  show ?thesis
    unfolding create_side_by_side_image_def r dict_set_response v
    by (simp add: assms(3) assms(6) dd settings_text_def read_float_def read_int_def
        build_payload_def Let_def)
qed

section \<open>The worked example of the specification\<close>

text \<open>
  C3 (as stated, refuted). The claim says that the shorter side is rounded to the nearest
  integer, so that 1920 by 1080 at scale 1/3 becomes 298 by 168. The program converts with
  \<^verbatim>\<open>int()\<close>, which truncates: 1080 * (298 / 1920) = 167.625 becomes 167, and the
  result is not 298 by 168.
\<close>

theorem resize_1920x1080_not_rounded:
  "constrain_dimensions 1920 1080 (effective_max_dimension 896 (py_truediv 1 3))
     \<noteq> Some (298, 168)"
  by code_simp

text \<open>
  C3 (amended). When resizing occurs, the longer side becomes the bound and the shorter
  side is the float product \<^verbatim>\<open>shorter * (bound / longer)\<close> truncated by \<^verbatim>\<open>int()\<close>: it
  is never above the exactly scaled value and less than one pixel and a rounding error
  below it, so it is not rounded to the nearest integer. At scale 1/3 the bound is 298; a
  1920 by 1080 image is resized to 298 by 167, the shorter side being
  1080 * 298 / 1920 = 167.625 truncated; and at quality 30 the output path of
  \<^verbatim>\<open>name.png\<close> is \<^verbatim>\<open>name_q30_s33.jpg\<close> in the directory of the source file.
\<close>

theorem resize_truncates:
  "(0 < height \<and> height < width \<and> emd < width \<and> 0 < emd \<and> height * emd < 2 ^ 51 \<longrightarrow>
      (\<exists>nh. constrain_dimensions width height emd = Some (emd, nh)
         \<and> nh = \<lfloor>py_mul height (py_truediv emd width)\<rfloor>
         \<and> (of_int nh :: rat) \<le> of_int height * of_int emd / of_int width
         \<and> of_int height * of_int emd / of_int width - 1 \<le> (of_int nh :: rat)))
   \<and> (0 < width \<and> width \<le> height \<and> emd < height \<and> 0 < emd \<and> width * emd < 2 ^ 51 \<longrightarrow>
      (\<exists>nw. constrain_dimensions width height emd = Some (nw, emd)
         \<and> nw = \<lfloor>py_mul width (py_truediv emd height)\<rfloor>
         \<and> (of_int nw :: rat) \<le> of_int width * of_int emd / of_int height
         \<and> of_int width * of_int emd / of_int height - 1 \<le> (of_int nw :: rat)))
   \<and> effective_max_dimension 896 (py_truediv 1 3) = 298
   \<and> constrain_dimensions 1920 1080 (effective_max_dimension 896 (py_truediv 1 3))
       = Some (298, 167)
   \<and> (167 :: int) = \<lfloor>1080 * 298 / 1920 :: rat\<rfloor>
   \<and> variant_output_path ''imgs/name.png'' 30 (py_truediv 1 3) = ''imgs/name_q30_s33.jpg''"
proof -
  have side: "\<exists>n. n = py_int (py_mul a (py_truediv b c)) \<and> n = \<lfloor>py_mul a (py_truediv b c)\<rfloor>
         \<and> (of_int n :: rat) \<le> of_int a * of_int b / of_int c
         \<and> of_int a * of_int b / of_int c - 1 \<le> (of_int n :: rat)"
    if "0 < a" "0 < b" "0 < c" "a * b < 2 ^ 51" for a b c :: int
  proof -
    define n where "n = py_int (py_mul a (py_truediv b c))"
    from scaled_side_bounds [OF that]
    have b: "n * c \<le> a * b" "a * b - c \<le> n * c"
      by (simp_all add: n_def)
    have cpos: "(0::rat) < of_int c" using that(3) by simp
    from two_roundings(1) [OF that(1-3)] have fl: "n = \<lfloor>py_mul a (py_truediv b c)\<rfloor>"
      by (simp add: n_def py_int_def)
    from b(1) have "(of_int (n * c) :: rat) \<le> of_int (a * b)"
      by (simp only: of_int_le_iff)
    then have up: "(of_int n :: rat) \<le> of_int a * of_int b / of_int c"
      using cpos by (simp add: pos_le_divide_eq)
    from b(2) have "(of_int (a * b - c) :: rat) \<le> of_int (n * c)"
      by (simp only: of_int_le_iff)
    then have lo: "of_int a * of_int b / of_int c - 1 \<le> (of_int n :: rat)"
      using cpos by (simp add: pos_divide_le_eq algebra_simps)
    from fl up lo show ?thesis by (simp add: n_def)
  qed
  have wide: "\<exists>nh. constrain_dimensions width height emd = Some (emd, nh)
         \<and> nh = \<lfloor>py_mul height (py_truediv emd width)\<rfloor>
         \<and> (of_int nh :: rat) \<le> of_int height * of_int emd / of_int width
         \<and> of_int height * of_int emd / of_int width - 1 \<le> (of_int nh :: rat)"
    if "0 < height" "height < width" "emd < width" "0 < emd" "height * emd < 2 ^ 51"
  proof -
    from that have w: "0 < width" by linarith
    from side [OF that(1) that(4) w that(5)] that show ?thesis
      by (auto simp: constrain_dimensions_def)
  qed
  have tall: "\<exists>nw. constrain_dimensions width height emd = Some (nw, emd)
         \<and> nw = \<lfloor>py_mul width (py_truediv emd height)\<rfloor>
         \<and> (of_int nw :: rat) \<le> of_int width * of_int emd / of_int height
         \<and> of_int width * of_int emd / of_int height - 1 \<le> (of_int nw :: rat)"
    if "0 < width" "width \<le> height" "emd < height" "0 < emd" "width * emd < 2 ^ 51"
  proof -
    from that have h: "0 < height" by linarith
    from side [OF that(1) that(4) h that(5)] that show ?thesis
      by (auto simp: constrain_dimensions_def)
  qed
  have example: "effective_max_dimension 896 (py_truediv 1 3) = 298
   \<and> constrain_dimensions 1920 1080 (effective_max_dimension 896 (py_truediv 1 3))
       = Some (298, 167)
   \<and> (167 :: int) = \<lfloor>1080 * 298 / 1920 :: rat\<rfloor>
   \<and> variant_output_path ''imgs/name.png'' 30 (py_truediv 1 3) = ''imgs/name_q30_s33.jpg''"
    by code_simp
  from wide tall example show ?thesis by blast
qed

theorem resize_truncates_witness:
  "(0::int) < 1080 \<and> (1080::int) < 1920 \<and> (298::int) < 1920 \<and> (0::int) < 298
   \<and> (1080::int) * 298 < 2 ^ 51
   \<and> (\<exists>nh. constrain_dimensions 1920 1080 298 = Some (298, nh)
          \<and> (of_int nh :: rat) \<le> 1080 * 298 / 1920
          \<and> 1080 * 298 / 1920 - 1 \<le> (of_int nh :: rat))
   \<and> (\<exists>nw. constrain_dimensions 1080 1920 298 = Some (nw, 298)
          \<and> (of_int nw :: rat) \<le> 1080 * 298 / 1920
          \<and> 1080 * 298 / 1920 - 1 \<le> (of_int nw :: rat))"
proof -
  from resize_truncates [of 1080 1920 298]
  have wide: "\<exists>nh. constrain_dimensions 1920 1080 298 = Some (298, nh)
          \<and> (of_int nh :: rat) \<le> 1080 * 298 / 1920
          \<and> 1080 * 298 / 1920 - 1 \<le> (of_int nh :: rat)"
    by simp
  from resize_truncates [of 1920 1080 298]
  have tall: "\<exists>nw. constrain_dimensions 1080 1920 298 = Some (nw, 298)
          \<and> (of_int nw :: rat) \<le> 1080 * 298 / 1920
          \<and> 1080 * 298 / 1920 - 1 \<le> (of_int nw :: rat)"
    by simp
  from wide tall show ?thesis by simp
qed

end
